theory Spec2Isabelle
  imports Complex_Main
begin

section \<open>Pitch-class codec (common.js)\<close>

text \<open>
  JavaScript numbers are modelled exactly: integers as \<open>int\<close>, frequencies, clarity values
  and timestamps as \<open>real\<close>. There is no NaN and no infinity in the model, and
  \<open>Math.log2\<close>, \<open>Math.pow\<close> and the arithmetic around them are the exact real functions.
  Errors thrown by the code are values of \<open>js_error\<close>.
\<close>

datatype js_error =
    UnknownPitchClass string
  | InvalidNoteName string
  | TypeError
  | UndefinedPitchClass

definition NOTE_NAMES :: "string list" where
  "NOTE_NAMES = [''C'', ''C#'', ''D'', ''D#'', ''E'', ''F'', ''F#'', ''G'', ''G#'', ''A'', ''A#'', ''B'']"

text \<open>\<open>Array.prototype.indexOf\<close>: the first index holding the value, or \<open>-1\<close>.\<close>

fun indexOf :: "'a list \<Rightarrow> 'a \<Rightarrow> int" where
  "indexOf [] v = -1"
| "indexOf (x # xs) v = (if x = v then 0 else (let i = indexOf xs v in if i < 0 then -1 else i + 1))"

text \<open>The remainder operator \<open>%\<close> on integers: the result takes the sign of the dividend.\<close>

definition js_rem :: "int \<Rightarrow> int \<Rightarrow> int" where
  "js_rem a b = sgn a * (\<bar>a\<bar> mod \<bar>b\<bar>)"

text \<open>
  \<open>xs[i]\<close>: an index outside the array reads \<open>undefined\<close>, here \<open>None\<close>. In
  \<open>xs[i] || null\<close> the empty string is falsy as well, and both give \<open>null\<close>.
\<close>

definition js_nth :: "'a list \<Rightarrow> int \<Rightarrow> 'a option" where
  "js_nth xs i = (if 0 \<le> i \<and> i < int (length xs) then Some (xs ! nat i) else None)"

definition nth_or_null :: "string list \<Rightarrow> int \<Rightarrow> string option" where
  "nth_or_null xs i =
     (case js_nth xs i of
        None \<Rightarrow> None
      | Some x \<Rightarrow> if x \<noteq> [] then Some x else None)"

text \<open>\<open>Math.round\<close> rounds half-way cases up, as \<^const>\<open>round\<close> does.\<close>

definition freqToPitchClass :: "real \<Rightarrow> string option" where
  "freqToPitchClass freq =
     (if freq = 0 \<or> freq \<le> 0 then None
      else
        let midi = round (12 * log 2 (freq / 440) + 69);
            index = js_rem (js_rem midi 12 + 12) 12
        in nth_or_null NOTE_NAMES index)"



subsection \<open>Note names\<close>

text \<open>
  \<open>String.prototype.trim\<close> on the ASCII white space characters (tab, line feed, vertical tab,
  form feed, carriage return, space); a \<open>char\<close> is one byte, so the Unicode white space
  beyond ASCII is outside the model.
\<close>

definition is_space :: "char \<Rightarrow> bool" where
  "is_space c = (c \<in> {CHR 0x09, CHR 0x0A, CHR 0x0B, CHR 0x0C, CHR 0x0D, CHR '' ''})"

definition trim :: "string \<Rightarrow> string" where
  "trim s = rev (dropWhile is_space (rev (dropWhile is_space s)))"

definition is_letter :: "char \<Rightarrow> bool" where
  "is_letter c = (c \<in> set ''ABCDEFGabcdefg'')"

definition is_digit :: "char \<Rightarrow> bool" where
  "is_digit c = (c \<in> set ''0123456789'')"

text \<open>\<open>toUpperCase\<close> on the one character the pattern lets through.\<close>

definition toUpperCase :: "char \<Rightarrow> char" where
  "toUpperCase c =
     (if c = CHR ''a'' then CHR ''A'' else if c = CHR ''b'' then CHR ''B''
      else if c = CHR ''c'' then CHR ''C'' else if c = CHR ''d'' then CHR ''D''
      else if c = CHR ''e'' then CHR ''E'' else if c = CHR ''f'' then CHR ''F''
      else if c = CHR ''g'' then CHR ''G'' else c)"

text \<open>The group \<open>(-?\d+)$\<close>: an optional minus sign and one or more digits, up to the end.\<close>

definition match_digits :: "string \<Rightarrow> bool" where
  "match_digits ds = (ds \<noteq> [] \<and> list_all is_digit ds)"

fun match_octave :: "string \<Rightarrow> bool" where
  "match_octave [] = False"
| "match_octave (c # cs) = (if c = CHR ''-'' then match_digits cs else match_digits (c # cs))"

text \<open>
  The pattern \<open>/^([A-Ga-g])([#b]?)(-?\d+)$/\<close>, giving the three groups. The optional
  accidental is greedy: the matcher first tries to take a \<open>#\<close> or \<open>b\<close>, and falls back
  to the empty accidental when the rest is then no octave.
\<close>

fun note_match :: "string \<Rightarrow> (char \<times> string \<times> string) option" where
  "note_match [] = None"
| "note_match (l # r) =
     (if is_letter l then
        (case r of
           [] \<Rightarrow> None
         | a # r' \<Rightarrow>
             if (a = CHR ''#'' \<or> a = CHR ''b'') \<and> match_octave r' then Some (l, [a], r')
             else if match_octave r then Some (l, [], r)
             else None)
      else None)"

text \<open>
  \<open>parseInt(s, 10)\<close> on a string that matched \<open>-?\d+\<close>; the empty string, for which
  it would give NaN, cannot occur.
\<close>

definition digit_val :: "char \<Rightarrow> int" where
  "digit_val c = indexOf ''0123456789'' c"

definition digits_val :: "string \<Rightarrow> int" where
  "digits_val ds = foldl (\<lambda>acc c. 10 * acc + digit_val c) 0 ds"

fun parseInt :: "string \<Rightarrow> int" where
  "parseInt [] = 0"
| "parseInt (c # cs) = (if c = CHR ''-'' then - digits_val cs else digits_val (c # cs))"

record named_note =
  pc :: string
  octave :: int

text \<open>
  \<open>NOTE_NAMES[newIdx]\<close> is always inside the array (lemma \<open>parseNoteName_defined\<close> below);
  the branch for an index outside it, where the code would store \<open>undefined\<close> as the
  pitch class, is written out as the value \<open>Inl UndefinedPitchClass\<close>.
\<close>

definition parseNoteName :: "string \<Rightarrow> js_error + named_note" where
  "parseNoteName name =
     (case note_match (trim name) of
        None \<Rightarrow> Inl (InvalidNoteName name)
      | Some (letter0, accidental, octave_text) \<Rightarrow>
          let letter = toUpperCase letter0
          in if accidental = ''#'' then Inr \<lparr>pc = [letter] @ ''#'', octave = parseInt octave_text\<rparr>
             else if accidental = ''b'' then
               (let idx = indexOf NOTE_NAMES [letter];
                    newIdx = js_rem (idx + 11) 12
                in case js_nth NOTE_NAMES newIdx of
                     None \<Rightarrow> Inl UndefinedPitchClass
                   | Some p \<Rightarrow> Inr \<lparr>pc = p, octave = parseInt octave_text\<rparr>)
             else Inr \<lparr>pc = [letter], octave = parseInt octave_text\<rparr>)"

text \<open>Number-to-string conversion of an integer, as in \<open>"Cb" + o\<close>.\<close>

definition digit_char :: "nat \<Rightarrow> char" where
  "digit_char d = ''0123456789'' ! d"

fun natToString :: "nat \<Rightarrow> string" where
  "natToString n = (if n < 10 then [digit_char n] else natToString (n div 10) @ [digit_char (n mod 10)])"

declare natToString.simps [simp del]

definition intToString :: "int \<Rightarrow> string" where
  "intToString i = (if i < 0 then ''-'' @ natToString (nat (- i)) else natToString (nat i))"

subsection \<open>The grammar of note names, as the specification words it\<close>



definition flat_of :: "char \<Rightarrow> string" where
  "flat_of letter = NOTE_NAMES ! nat ((indexOf NOTE_NAMES [letter] + 11) mod 12)"

subsection \<open>Interval names\<close>

text \<open>
  The table of Polish interval names. Text is a list of bytes, so the two letters outside
  ASCII are written as their UTF-8 bytes: \<open>l_stroke\<close> is the l with stroke and
  \<open>o_acute\<close> the o with acute accent.
\<close>

definition l_stroke :: string where
  "l_stroke = [CHR 0xC5, CHR 0x82]"

definition o_acute :: string where
  "o_acute = [CHR 0xC3, CHR 0xB3]"

definition interval_names :: "(int \<times> string) list" where
  "interval_names =
     [(0, ''pryma czysta''),
      (1, ''sekunda ma'' @ l_stroke @ ''a''),
      (2, ''sekunda wielka''),
      (3, ''tercja ma'' @ l_stroke @ ''a''),
      (4, ''tercja wielka''),
      (5, ''kwarta czysta''),
      (6, ''tryton''),
      (7, ''kwinta czysta''),
      (8, ''seksta ma'' @ l_stroke @ ''a''),
      (9, ''seksta wielka''),
      (10, ''septyma ma'' @ l_stroke @ ''a''),
      (11, ''septyma wielka'')]"

definition intervalNameFromSemitone :: "int \<Rightarrow> string" where
  "intervalNameFromSemitone semitones =
     (case map_of interval_names semitones of
        Some name \<Rightarrow> if name \<noteq> [] then name
                      else intToString semitones @ '' p'' @ o_acute @ l_stroke @ ''ton'' @ o_acute @ ''w''
      | None \<Rightarrow> intToString semitones @ '' p'' @ o_acute @ l_stroke @ ''ton'' @ o_acute @ ''w'')"

section \<open>The note detector (noteDetector.js)\<close>

text \<open>
  The fields of a \<open>NoteDetector\<close> that hold a browser resource are modelled by whether
  they are set (\<open>True\<close>) or \<open>null\<close> (\<open>False\<close>); \<open>pitchDetector\<close> is the field
  \<open>this.detector\<close>. The callback \<open>onFrequency\<close> is supplied by the exercise that
  owns the detector and is a parameter of \<open>run\<close> below.
\<close>

record NoteDetector =
  clarityThreshold :: real
  audioCtx :: bool
  stream :: bool
  source :: bool
  processor :: bool
  pitchDetector :: bool
  lastDetectTime :: real

definition NoteDetector_new :: "real \<Rightarrow> NoteDetector" where
  "NoteDetector_new threshold =
     \<lparr>clarityThreshold = threshold, audioCtx = False, stream = False, source = False,
      processor = False, pitchDetector = False, lastDetectTime = 0\<rparr>"

text \<open>
  \<open>start()\<close>. The parameter \<open>mic\<close> is the outcome of \<open>getUserMedia\<close>: \<open>None\<close> when
  the stream was obtained, \<open>Some err\<close> when the request was rejected. The result is the
  error the returned promise is rejected with (\<open>None\<close>: the promise is fulfilled), the
  effects shown to the user, and the detector afterwards.
\<close>

datatype media_error = NotAllowedError | NotFoundError

datatype effect = ConsoleError | Alert

definition start :: "media_error option \<Rightarrow> NoteDetector \<Rightarrow> js_error option \<times> effect list \<times> NoteDetector" where
  "start mic d =
     (let d1 = d\<lparr>audioCtx := True, pitchDetector := True\<rparr>
      in case mic of
           Some err \<Rightarrow> (None, [ConsoleError, Alert], d1)
         | None \<Rightarrow> (None, [], d1\<lparr>stream := True, source := True, processor := True\<rparr>))"

definition stop :: "NoteDetector \<Rightarrow> NoteDetector" where
  "stop d = d\<lparr>processor := False, source := False, stream := False, audioCtx := False,
              pitchDetector := False\<rparr>"

text \<open>
  The handler of \<open>onaudioprocess\<close>. A frame is what one call sees: the pitch and clarity
  returned by \<open>findPitch\<close> and the value of \<open>performance.now()\<close>. The result is the
  note event passed to \<open>onFrequency\<close>, if any, with the time at which it is passed.
\<close>

type_synonym frame = "real \<times> real \<times> real"

definition onaudioprocess :: "frame \<Rightarrow> NoteDetector \<Rightarrow> (real \<times> real) option \<times> NoteDetector" where
  "onaudioprocess fr d =
     (case fr of (pitch, clarity, now) \<Rightarrow>
        if pitch \<noteq> 0 \<and> clarity \<ge> clarityThreshold d then
          if now - lastDetectTime d > 250 then (Some (now, pitch), d\<lparr>lastDetectTime := now\<rparr>)
          else (None, d)
        else (None, d))"

text \<open>
  The handler exists only once \<open>start()\<close> has installed the processor, and is not called
  any more after \<open>stop()\<close>; \<open>feed\<close> gives the events emitted for a list of frames.
\<close>

fun feed :: "frame list \<Rightarrow> NoteDetector \<Rightarrow> (real \<times> real) list \<times> NoteDetector" where
  "feed [] d = ([], d)"
| "feed (fr # frs) d =
     (if processor d then
        (case onaudioprocess fr d of
           (None, d1) \<Rightarrow> feed frs d1
         | (Some e, d1) \<Rightarrow> (case feed frs d1 of (es, d2) \<Rightarrow> (e # es, d2)))
      else ([], d))"

section \<open>The exercises\<close>

text \<open>
  What an exercise shows in its status element: nothing, the text for listening, a success
  with the number of stars, or a failure with its message. A \<open>page\<close> holds the module
  variables every exercise has: the detector (\<open>None\<close> is \<open>null\<close>), the time recording
  started, the status element, the star counter kept in local storage, and the errors the
  detector caught from the callback and logged.
\<close>

datatype message =
    TooManyNotes
  | CountMismatch
  | SequenceDiffers
  | IntervalWas string
  | NoteWas string

datatype status = Blank | Listening | ResultSuccess nat | ResultFailure message


record page =
  detector :: "NoteDetector option"
  recordStartTime :: "real option"
  status :: status
  pianoStars :: nat
  console :: "js_error list"

text \<open>
  The reward: \<open>fast\<close> and \<open>mid\<close> are the thresholds in seconds of the exercise. A start
  time that is \<open>null\<close> or \<open>0\<close> is falsy and gives one star.
\<close>

definition stars_for :: "real \<Rightarrow> real \<Rightarrow> real option \<Rightarrow> real \<Rightarrow> nat" where
  "stars_for fast mid started now =
     (case started of
        None \<Rightarrow> 1
      | Some t0 \<Rightarrow>
          if t0 = 0 then 1
          else
            let elapsed = (now - t0) / 1000
            in if elapsed \<le> fast then 3 else if elapsed \<le> mid then 2 else 1)"

definition succeed :: "nat \<Rightarrow> 'a page_scheme \<Rightarrow> 'a page_scheme" where
  "succeed stars s = s\<lparr>status := ResultSuccess stars, pianoStars := pianoStars s + stars\<rparr>"

text \<open>
  \<open>detector.stop(); detector = null;\<close> inside a callback: a call on \<open>null\<close> throws.
\<close>

definition stop_detector :: "'a page_scheme \<Rightarrow> js_error option \<times> 'a page_scheme" where
  "stop_detector s =
     (case detector s of
        None \<Rightarrow> (Some TypeError, s)
      | Some d \<Rightarrow> (None, s\<lparr>detector := None\<rparr>))"

text \<open>
  A note event is the time of the callback and what was detected. The detector calls the
  callback only while its processor is installed, catches what the callback throws and
  logs it.
\<close>

definition delivering :: "'a page_scheme \<Rightarrow> bool" where
  "delivering s = (case detector s of None \<Rightarrow> False | Some d \<Rightarrow> processor d)"

fun run :: "(real \<Rightarrow> 'e \<Rightarrow> 'a page_scheme \<Rightarrow> js_error option \<times> 'a page_scheme) \<Rightarrow>
    (real \<times> 'e) list \<Rightarrow> 'a page_scheme \<Rightarrow> 'a page_scheme" where
  "run h [] s = s"
| "run h ((now, ev) # es) s =
     (if delivering s then
        (case h now ev s of
           (None, s1) \<Rightarrow> run h es s1
         | (Some err, s1) \<Rightarrow> run h es (s1\<lparr>console := console s1 @ [err]\<rparr>))
      else s)"

text \<open>
  Every callback starts by resolving the frequency to a pitch class and returns when there
  is none. \<open>resolve\<close> gives the note events of a list of frequency events: the time and
  the pitch class of each event whose frequency resolves.
\<close>

fun resolve :: "(real \<times> real) list \<Rightarrow> (real \<times> string) list" where
  "resolve [] = []"
| "resolve ((now, freq) # evs) =
     (case freqToPitchClass freq of
        None \<Rightarrow> resolve evs
      | Some p \<Rightarrow> (now, p) # resolve evs)"

text \<open>
  What the four functions \<open>startRecording\<close> share. A detector still held is stopped and
  dropped first, which the assignment of the new detector subsumes.
\<close>

definition begin_recording :: "real \<Rightarrow> media_error option \<Rightarrow> 'a page_scheme \<Rightarrow> 'a page_scheme" where
  "begin_recording now mic s =
     s\<lparr>status := Listening,
       recordStartTime := Some now,
       detector := Some (snd (snd (start mic (NoteDetector_new 0.85))))\<rparr>"

subsection \<open>Chords (chords.js)\<close>

record chords_page = page +
  expectedPitchClasses :: "string list"
  userPitchClasses :: "string list"

definition chords_startRecording :: "real \<Rightarrow> media_error option \<Rightarrow> chords_page \<Rightarrow> chords_page" where
  "chords_startRecording now mic s = begin_recording now mic (s\<lparr>userPitchClasses := []\<rparr>)"

text \<open>The callback after the pitch class has been found not to be \<open>null\<close>.\<close>

definition chords_note :: "real \<Rightarrow> string \<Rightarrow> chords_page \<Rightarrow> js_error option \<times> chords_page" where
  "chords_note now pitchClass s =
     (if pitchClass \<notin> set (userPitchClasses s) then
        let s1 = s\<lparr>userPitchClasses := userPitchClasses s @ [pitchClass]\<rparr>;
            allMatch = list_all (\<lambda>p. p \<in> set (userPitchClasses s1)) (expectedPitchClasses s1);
            r = (if allMatch
                 then stop_detector (succeed (stars_for 5 10 (recordStartTime s1) now) s1)
                 else (None, s1))
        in case r of
             (Some err, s2) \<Rightarrow> (Some err, s2)
           | (None, s2) \<Rightarrow>
               if length (userPitchClasses s2) > length (expectedPitchClasses s2)
               then stop_detector (s2\<lparr>status := ResultFailure TooManyNotes\<rparr>)
               else (None, s2)
      else (None, s))"

definition chords_onFrequency :: "real \<Rightarrow> real \<Rightarrow> chords_page \<Rightarrow> js_error option \<times> chords_page" where
  "chords_onFrequency now freq s =
     (case freqToPitchClass freq of None \<Rightarrow> (None, s) | Some pitchClass \<Rightarrow> chords_note now pitchClass s)"

subsection \<open>Intervals (intervals.js)\<close>

record intervals_page = page +
  currentIntervalSemitone :: int
  iv_userPitchClasses :: "string list"

definition evaluateInterval :: "real \<Rightarrow> intervals_page \<Rightarrow> intervals_page" where
  "evaluateInterval now s =
     (case iv_userPitchClasses s of
        n1 # n2 # rest \<Rightarrow>
          let idx1 = indexOf NOTE_NAMES n1;
              idx2 = indexOf NOTE_NAMES n2
          in if idx1 = -1 \<or> idx2 = -1 then s
             else
               let diff = js_rem (js_rem (idx2 - idx1) 12 + 12) 12
               in if diff = currentIntervalSemitone s
                  then succeed (stars_for 4 8 (recordStartTime s) now) s
                  else s\<lparr>status := ResultFailure (IntervalWas (intervalNameFromSemitone diff))\<rparr>
      | _ \<Rightarrow> s)"

definition intervals_startRecording :: "real \<Rightarrow> media_error option \<Rightarrow> intervals_page \<Rightarrow> intervals_page" where
  "intervals_startRecording now mic s = begin_recording now mic (s\<lparr>iv_userPitchClasses := []\<rparr>)"

definition intervals_note :: "real \<Rightarrow> string \<Rightarrow> intervals_page \<Rightarrow> js_error option \<times> intervals_page" where
  "intervals_note now p s =
     (if p \<notin> set (iv_userPitchClasses s) then
        let s1 = s\<lparr>iv_userPitchClasses := iv_userPitchClasses s @ [p]\<rparr>
        in if length (iv_userPitchClasses s1) = 2 then
             (case stop_detector s1 of
                (Some err, s2) \<Rightarrow> (Some err, s2)
              | (None, s2) \<Rightarrow> (None, evaluateInterval now s2))
           else (None, s1)
      else (None, s))"

definition intervals_onFrequency :: "real \<Rightarrow> real \<Rightarrow> intervals_page \<Rightarrow> js_error option \<times> intervals_page" where
  "intervals_onFrequency now freq s =
     (case freqToPitchClass freq of None \<Rightarrow> (None, s) | Some p \<Rightarrow> intervals_note now p s)"

subsection \<open>Memory sequence (memory.js)\<close>

definition SEQ_LENGTH :: nat where
  "SEQ_LENGTH = 3"

definition naturals :: "string list" where
  "naturals = [''C'', ''D'', ''E'', ''F'', ''G'', ''A'', ''B'']"

record memory_page = page +
  expectedSequence :: "string list"
  userSequence :: "string list"

text \<open>
  The comparison loop of \<open>evaluateSequence\<close>, from index \<open>i\<close>; it runs only when both
  lists have the same length, so every index it reads exists.
\<close>

function sequence_correct :: "string list \<Rightarrow> string list \<Rightarrow> nat \<Rightarrow> bool" where
  "sequence_correct expected user i =
     (if i < length expected then
        (if expected ! i \<noteq> user ! i then False else sequence_correct expected user (i + 1))
      else True)"
  by pat_completeness auto
termination
  by (relation "measure (\<lambda>(expected, user, i). length expected - i)") auto

declare sequence_correct.simps [simp del]

definition evaluateSequence :: "real \<Rightarrow> memory_page \<Rightarrow> memory_page" where
  "evaluateSequence now s =
     (if length (userSequence s) \<noteq> length (expectedSequence s)
      then s\<lparr>status := ResultFailure CountMismatch\<rparr>
      else if sequence_correct (expectedSequence s) (userSequence s) 0
      then succeed (stars_for (real SEQ_LENGTH * 2) (real SEQ_LENGTH * 4) (recordStartTime s) now) s
      else s\<lparr>status := ResultFailure SequenceDiffers\<rparr>)"

definition memory_startRecording :: "real \<Rightarrow> media_error option \<Rightarrow> memory_page \<Rightarrow> memory_page" where
  "memory_startRecording now mic s = begin_recording now mic (s\<lparr>userSequence := []\<rparr>)"

definition memory_note :: "real \<Rightarrow> string \<Rightarrow> memory_page \<Rightarrow> js_error option \<times> memory_page" where
  "memory_note now p s =
     (if p \<notin> set naturals then (None, s)
      else if length (userSequence s) < length (expectedSequence s) then
        let s1 = s\<lparr>userSequence := userSequence s @ [p]\<rparr>
        in if length (userSequence s1) = length (expectedSequence s1) then
             (case stop_detector s1 of
                (Some err, s2) \<Rightarrow> (Some err, s2)
              | (None, s2) \<Rightarrow> (None, evaluateSequence now s2))
           else (None, s1)
      else (None, s))"

definition memory_onFrequency :: "real \<Rightarrow> real \<Rightarrow> memory_page \<Rightarrow> js_error option \<times> memory_page" where
  "memory_onFrequency now freq s =
     (case freqToPitchClass freq of None \<Rightarrow> (None, s) | Some p \<Rightarrow> memory_note now p s)"

subsection \<open>Note reading (reading.js)\<close>

record reading_page = page +
  currentNote :: "string option"

text \<open>\<open>text.replace(/#/, '')\<close> removes the first \<open>#\<close>.\<close>

definition strip_sharp :: "string \<Rightarrow> string" where
  "strip_sharp text = remove1 (CHR ''#'') text"

definition reading_startRecording :: "real \<Rightarrow> media_error option \<Rightarrow> reading_page \<Rightarrow> reading_page" where
  "reading_startRecording now mic s =
     (case currentNote s of
        None \<Rightarrow> s
      | Some name \<Rightarrow> if name = [] then s else begin_recording now mic s)"

definition reading_note :: "real \<Rightarrow> string \<Rightarrow> reading_page \<Rightarrow> js_error option \<times> reading_page" where
  "reading_note now p s =
     (let naturalPc = strip_sharp p
      in case currentNote s of
           None \<Rightarrow> (Some TypeError, s)
         | Some name \<Rightarrow>
             (case parseNoteName name of
                Inl err \<Rightarrow> (Some err, s)
              | Inr parsed \<Rightarrow>
                  let expectedPc = strip_sharp (pc parsed)
                  in if naturalPc = expectedPc
                     then stop_detector (succeed (stars_for 3 6 (recordStartTime s) now) s)
                     else stop_detector (s\<lparr>status := ResultFailure (NoteWas naturalPc)\<rparr>)))"

definition reading_onFrequency :: "real \<Rightarrow> real \<Rightarrow> reading_page \<Rightarrow> js_error option \<times> reading_page" where
  "reading_onFrequency now freq s =
     (case freqToPitchClass freq of None \<Rightarrow> (None, s) | Some p \<Rightarrow> reading_note now p s)"

section \<open>Properties of the codec\<close>


lemma js_rem_12: "js_rem (js_rem m 12 + 12) 12 = m mod 12"
proof -
  have pos: "0 \<le> js_rem m 12 + 12"
    by (cases "m < 0") (auto simp: js_rem_def sgn_if intro: order_trans [of _ 0])
  have "js_rem m 12 mod 12 = m mod 12"
  proof (cases "m < 0")
    case True
    then have "js_rem m 12 = - ((- m) mod 12)"
      by (simp add: js_rem_def sgn_if)
    then show ?thesis
      by (simp add: mod_minus_eq)
  next
    case False
    then show ?thesis
      by (cases "m = 0") (simp_all add: js_rem_def sgn_if)
  qed
  then have "(js_rem m 12 + 12) mod 12 = m mod 12"
    by simp
  moreover from pos have "js_rem (js_rem m 12 + 12) 12 = (js_rem m 12 + 12) mod 12"
    by (auto simp: js_rem_def sgn_if)
  ultimately show ?thesis
    by simp
qed

lemma indexOf_range: "indexOf xs v = -1 \<or> (0 \<le> indexOf xs v \<and> indexOf xs v < int (length xs))"
  by (induction xs) (auto simp: Let_def)



lemma NOTE_NAMES_nth: "0 \<le> i \<Longrightarrow> i < 12 \<Longrightarrow> nth_or_null NOTE_NAMES i = Some (NOTE_NAMES ! nat i)"
proof -
  assume "0 \<le> i" "i < 12"
  then have "i = 0 \<or> i = 1 \<or> i = 2 \<or> i = 3 \<or> i = 4 \<or> i = 5 \<or> i = 6 \<or> i = 7
      \<or> i = 8 \<or> i = 9 \<or> i = 10 \<or> i = 11"
    by arith
  then show ?thesis
    by (auto simp: nth_or_null_def js_nth_def NOTE_NAMES_def)
qed

lemma freqToPitchClass_pos:
  assumes "0 < freq"
  shows "freqToPitchClass freq =
    Some (NOTE_NAMES ! nat (round (12 * log 2 (freq / 440) + 69) mod 12))"
proof -
  let ?m = "round (12 * log 2 (freq / 440) + 69)"
  have "0 \<le> ?m mod 12" "?m mod 12 < 12"
    by simp_all
  then have "nth_or_null NOTE_NAMES (?m mod 12) = Some (NOTE_NAMES ! nat (?m mod 12))"
    by (rule NOTE_NAMES_nth)
  with assms show ?thesis
    by (simp add: freqToPitchClass_def Let_def js_rem_12)
qed




subsection \<open>Evaluating the codec at a given frequency\<close>

text \<open>
  The MIDI number of a frequency is \<open>m\<close> when the frequency lies within half a semitone
  of it, which is a comparison of powers with natural exponents.
\<close>


lemma round_midi:
  fixes f :: real and m :: nat
  assumes "0 < f" and "2 ^ (2 * m) \<le> 2 ^ 139 * (f / 440) ^ 24"
    and "2 ^ 137 * (f / 440) ^ 24 < 2 ^ (2 * m)"
  shows "round (12 * log 2 (f / 440) + 69) = int m"
proof -
  let ?r = "f / 440"
  let ?x = "log 2 ?r"
  from assms(1) have r: "0 < ?r"
    by simp
  have p: "log 2 (2 ^ k * ?r ^ 24) = real k + 24 * ?x" for k :: nat
    using r by (simp add: log_mult log_nat_power)
  have q: "log 2 (2 ^ (2 * m)) = 2 * real m"
    by (simp add: log_nat_power)
  have "log 2 (2 ^ (2 * m)) \<le> log 2 (2 ^ 139 * ?r ^ 24)"
    using assms(2) r by (subst log_le_cancel_iff) simp_all
  then have lo: "2 * real m \<le> 139 + 24 * ?x"
    unfolding p q by simp
  have "log 2 (2 ^ 137 * ?r ^ 24) < log 2 (2 ^ (2 * m))"
    using assms(3) r by (subst log_less_cancel_iff) simp_all
  then have hi: "137 + 24 * ?x < 2 * real m"
    unfolding p q by simp
  show ?thesis
  proof (rule round_unique)
    from hi show "12 * ?x + 69 - 1 / 2 < real_of_int (int m)"
      by simp
    from lo show "real_of_int (int m) \<le> 12 * ?x + 69 + 1 / 2"
      by simp
  qed
qed

lemma freqToPitchClass_band:
  fixes f :: real and m :: nat
  assumes "0 < f" and "2 ^ (2 * m) \<le> 2 ^ 139 * (f / 440) ^ 24"
    and "2 ^ 137 * (f / 440) ^ 24 < 2 ^ (2 * m)"
  shows "freqToPitchClass f = Some (NOTE_NAMES ! (m mod 12))"
proof -
  have "nat (int m mod 12) = m mod 12"
    by (simp add: nat_mod_distrib)
  with assms show ?thesis
    by (simp add: freqToPitchClass_pos round_midi)
qed

text \<open>Some frequencies in Hz, near C4, C#4, D4, E4, F4, F#4 and G4.\<close>

lemma freqToPitchClass_Hz:
  "freqToPitchClass 262 = Some ''C''"
  "freqToPitchClass 294 = Some ''D''"
  "freqToPitchClass 330 = Some ''E''"
  "freqToPitchClass 392 = Some ''G''"
  "freqToPitchClass 277 = Some ''C#''"
  "freqToPitchClass 349 = Some ''F''"
  "freqToPitchClass 370 = Some ''F#''"
proof -
  have "freqToPitchClass 277 = Some (NOTE_NAMES ! (61 mod 12))"
    by (rule freqToPitchClass_band) (simp_all add: power_divide)
  then show "freqToPitchClass 277 = Some ''C#''"
    by (simp add: NOTE_NAMES_def)
  have "freqToPitchClass 349 = Some (NOTE_NAMES ! (65 mod 12))"
    by (rule freqToPitchClass_band) (simp_all add: power_divide)
  then show "freqToPitchClass 349 = Some ''F''"
    by (simp add: NOTE_NAMES_def)
  have "freqToPitchClass 370 = Some (NOTE_NAMES ! (66 mod 12))"
    by (rule freqToPitchClass_band) (simp_all add: power_divide)
  then show "freqToPitchClass 370 = Some ''F#''"
    by (simp add: NOTE_NAMES_def)
  have "freqToPitchClass 262 = Some (NOTE_NAMES ! (60 mod 12))"
    by (rule freqToPitchClass_band) (simp_all add: power_divide)
  then show "freqToPitchClass 262 = Some ''C''"
    by (simp add: NOTE_NAMES_def)
  have "freqToPitchClass 294 = Some (NOTE_NAMES ! (62 mod 12))"
    by (rule freqToPitchClass_band) (simp_all add: power_divide)
  then show "freqToPitchClass 294 = Some ''D''"
    by (simp add: NOTE_NAMES_def)
  have "freqToPitchClass 330 = Some (NOTE_NAMES ! (64 mod 12))"
    by (rule freqToPitchClass_band) (simp_all add: power_divide)
  then show "freqToPitchClass 330 = Some ''E''"
    by (simp add: NOTE_NAMES_def)
  have "freqToPitchClass 392 = Some (NOTE_NAMES ! (67 mod 12))"
    by (rule freqToPitchClass_band) (simp_all add: power_divide)
  then show "freqToPitchClass 392 = Some ''G''"
    by (simp add: NOTE_NAMES_def)
qed




section \<open>Properties of the note-name parser\<close>





















lemma js_rem_nonneg: "0 \<le> a \<Longrightarrow> js_rem a 12 = a mod 12"
  by (auto simp: js_rem_def sgn_if)

lemma flat_lookup:
  "js_nth NOTE_NAMES (js_rem (indexOf NOTE_NAMES [letter] + 11) 12) = Some (flat_of letter)"
proof -
  let ?i = "indexOf NOTE_NAMES [letter]"
  have "?i = -1 \<or> 0 \<le> ?i"
    using indexOf_range [of NOTE_NAMES "[letter]"] by auto
  then have "0 \<le> ?i + 11"
    by auto
  then have "js_rem (?i + 11) 12 = (?i + 11) mod 12"
    by (rule js_rem_nonneg)
  moreover have "length NOTE_NAMES = 12"
    by (simp add: NOTE_NAMES_def)
  then have "js_nth NOTE_NAMES ((?i + 11) mod 12) = Some (NOTE_NAMES ! nat ((?i + 11) mod 12))"
    by (simp add: js_nth_def)
  ultimately show ?thesis
    by (simp add: flat_of_def)
qed


lemma parseNoteName_defined: "parseNoteName name \<noteq> Inl UndefinedPitchClass"
  by (auto simp: parseNoteName_def Let_def flat_lookup split: option.splits)





section \<open>Properties of the note detector\<close>


text \<open>\<open>stop()\<close> may be called again without effect, and a stopped detector emits nothing.\<close>

lemma stop_idempotent: "stop (stop d) = stop d"
  by (simp add: stop_def)

lemma stop_silent: "feed frames (stop d) = ([], stop d)"
  by (cases frames) (simp_all add: stop_def)





section \<open>Properties of the exercises\<close>

lemma run_not_delivering: "\<not> delivering s \<Longrightarrow> run h evs s = s"
  by (cases evs) auto

lemma delivering_begin_recording:
  "delivering (begin_recording now mic s) \<longleftrightarrow> mic = None"
  by (cases mic) (simp_all add: delivering_def begin_recording_def start_def NoteDetector_new_def)

lemma begin_recording_fields:
  "status (begin_recording now mic s) = Listening"
  "recordStartTime (begin_recording now mic s) = Some now"
  "pianoStars (begin_recording now mic s) = pianoStars s"
  "console (begin_recording now mic s) = console s"
  "page.more (begin_recording now mic s) = page.more s"
  by (simp_all add: begin_recording_def)

lemma not_delivering_stopped: "\<not> delivering (s\<lparr>detector := None\<rparr>)"
  by (simp add: delivering_def)

lemma feed_no_processor: "\<not> processor d \<Longrightarrow> feed frames d = ([], d)"
  by (cases frames) auto

text \<open>
  A run of a callback on frequency events is the run of its body on the resolved note
  events.
\<close>

lemma run_resolve:
  assumes "\<And>now freq s. h now freq s =
    (case freqToPitchClass freq of None \<Rightarrow> (None, s) | Some p \<Rightarrow> g now p s)"
  shows "run h evs s = run g (resolve evs) s"
proof (induction evs arbitrary: s)
  case Nil
  show ?case by simp
next
  case (Cons e evs)
  obtain t f where e: "e = (t, f)"
    by (cases e) auto
  show ?case
  proof (cases "delivering s")
    case False
    then show ?thesis
      by (simp add: run_not_delivering)
  next
    case True
    show ?thesis
    proof (cases "freqToPitchClass f")
      case None
      with True e Cons.IH [of s] show ?thesis
        by (simp add: assms)
    next
      case (Some p)
      with True e Cons.IH show ?thesis
        by (simp add: assms split: prod.splits option.splits)
    qed
  qed
qed

lemma chords_run_resolve: "run chords_onFrequency evs s = run chords_note (resolve evs) s"
  by (rule run_resolve) (simp add: chords_onFrequency_def)


lemma memory_run_resolve: "run memory_onFrequency evs s = run memory_note (resolve evs) s"
  by (rule run_resolve) (simp add: memory_onFrequency_def)


subsection \<open>Failure to obtain the microphone\<close>

text \<open>
  C2, as amended. When \<open>getUserMedia\<close> is rejected, \<open>start()\<close> does not fail: it logs the
  error, shows an alert and returns normally, so its caller is given no error. On a new
  detector no processor is installed, so no frame is ever handled and no event emitted; in
  each of the four exercises the status stays at the text for listening and no verdict is
  reached, whatever is played afterwards.
\<close>

theorem start_reports_no_error:
  "fst (start (Some err) d) = None
   \<and> fst (snd (start (Some err) d)) = [ConsoleError, Alert]
   \<and> fst (feed frames (snd (snd (start (Some err) (NoteDetector_new threshold))))) = []
   \<and> status (run chords_onFrequency evs (chords_startRecording now (Some err) c)) = Listening
   \<and> status (run intervals_onFrequency evs (intervals_startRecording now (Some err) i)) = Listening
   \<and> status (run memory_onFrequency evs (memory_startRecording now (Some err) m)) = Listening
   \<and> (currentNote r = Some name \<and> name \<noteq> [] \<longrightarrow>
        status (run reading_onFrequency evs (reading_startRecording now (Some err) r)) = Listening)"
proof (intro conjI impI)
  show "fst (start (Some err) d) = None"
    by (simp add: start_def)
  show "fst (snd (start (Some err) d)) = [ConsoleError, Alert]"
    by (simp add: start_def)
  show "fst (feed frames (snd (snd (start (Some err) (NoteDetector_new threshold))))) = []"
    by (simp add: feed_no_processor start_def NoteDetector_new_def)
  show "status (run chords_onFrequency evs (chords_startRecording now (Some err) c)) = Listening"
    by (simp add: chords_startRecording_def run_not_delivering delivering_begin_recording
        begin_recording_fields)
  show "status (run intervals_onFrequency evs (intervals_startRecording now (Some err) i)) = Listening"
    by (simp add: intervals_startRecording_def run_not_delivering delivering_begin_recording
        begin_recording_fields)
  show "status (run memory_onFrequency evs (memory_startRecording now (Some err) m)) = Listening"
    by (simp add: memory_startRecording_def run_not_delivering delivering_begin_recording
        begin_recording_fields)
next
  assume "currentNote r = Some name \<and> name \<noteq> []"
  then show "status (run reading_onFrequency evs (reading_startRecording now (Some err) r)) = Listening"
    by (simp add: reading_startRecording_def run_not_delivering delivering_begin_recording
        begin_recording_fields)
qed

text \<open>
  C2 as stated fails: with permission denied, the promise returned by \<open>start()\<close> on a new
  detector is fulfilled, not rejected with an error.
\<close>

theorem start_reports_no_error_counterexample:
  "fst (start (Some NotAllowedError) (NoteDetector_new 0.85)) = None"
  by (simp add: start_def)

theorem start_reports_no_error_witness:
  "currentNote \<lparr>detector = None, recordStartTime = None, status = Blank, pianoStars = 0,
       console = [], currentNote = Some ''E4''\<rparr> = Some ''E4'' \<and> ''E4'' \<noteq> []
   \<and> status (run reading_onFrequency [(1000, 330)]
        (reading_startRecording 500 (Some NotFoundError)
          \<lparr>detector = None, recordStartTime = None, status = Blank, pianoStars = 0,
           console = [], currentNote = Some ''E4''\<rparr>)) = Listening"
proof -
  let ?r = "\<lparr>detector = None, recordStartTime = None, status = Blank, pianoStars = 0,
       console = [], currentNote = Some ''E4''\<rparr>"
  have h: "currentNote ?r = Some ''E4'' \<and> ''E4'' \<noteq> []"
    by simp
  from start_reports_no_error [of NotFoundError undefined "[]" 0 "[(1000, 330)]" 500 undefined undefined
      undefined ?r "''E4''"] h
  show ?thesis
    by (simp del: run.simps)
qed

subsection \<open>Chords\<close>

text \<open>
  C3. The chord exercise is meant to end in success at the first event at which every
  expected pitch class has been played, and success and failure are meant to exclude each
  other. The code breaks this when a wrong pitch class was played before the last expected
  one: for the chord C, E, G and events at 262, 330, 294 and 392 Hz, which are C, E, D and
  G, the event G completes the chord, so three stars are awarded and the detector is
  stopped, and the same call then finds four notes played for three expected, replaces the
  status by the failure for too many notes and calls \<open>stop()\<close> on the detector that is
  now \<open>null\<close>, which throws.
\<close>

theorem chords_success_overwritten_by_failure:
  "run chords_onFrequency [(1000, 262), (2000, 330), (3000, 294), (4000, 392)]
     (chords_startRecording 500 None
        \<lparr>detector = None, recordStartTime = None, status = Blank, pianoStars = 0, console = [],
         expectedPitchClasses = [''C'', ''E'', ''G''], userPitchClasses = []\<rparr>)
   = \<lparr>detector = None, recordStartTime = Some 500, status = ResultFailure TooManyNotes,
      pianoStars = 3, console = [TypeError],
      expectedPitchClasses = [''C'', ''E'', ''G''], userPitchClasses = [''C'', ''E'', ''D'', ''G'']\<rparr>"
proof -
  have "resolve [(1000, 262), (2000, 330), (3000, 294), (4000, 392)] =
      [(1000, ''C''), (2000, ''E''), (3000, ''D''), (4000, ''G'')]"
    by (simp add: freqToPitchClass_Hz)
  then show ?thesis
    unfolding chords_run_resolve
    by (simp add: chords_startRecording_def begin_recording_def start_def NoteDetector_new_def
        delivering_def chords_note_def stop_detector_def succeed_def stars_for_def Let_def)
qed

subsection \<open>Intervals\<close>









subsection \<open>Memory sequence\<close>



lemma evaluateSequence_fields:
  "detector (evaluateSequence now s) = detector s"
  "userSequence (evaluateSequence now s) = userSequence s"
  "expectedSequence (evaluateSequence now s) = expectedSequence s"
  by (simp_all add: evaluateSequence_def succeed_def)

lemma memory_note_not_natural: "p \<notin> set naturals \<Longrightarrow> memory_note now p s = (None, s)"
  by (simp add: memory_note_def)





lemma memory_note_naturals:
  assumes "set (userSequence s) \<subseteq> set naturals"
  shows "set (userSequence (snd (memory_note now p s))) \<subseteq> set naturals"
  using assms
  by (auto simp: memory_note_def Let_def stop_detector_def evaluateSequence_fields
      split: option.splits)

lemma memory_run_naturals:
  "set (userSequence s) \<subseteq> set naturals \<Longrightarrow> set (userSequence (run memory_note evs s)) \<subseteq> set naturals"
proof (induction evs arbitrary: s)
  case Nil
  then show ?case by simp
next
  case (Cons e evs)
  obtain t p where e: "e = (t, p)"
    by (cases e) auto
  obtain err s1 where step: "memory_note t p s = (err, s1)"
    by (cases "memory_note t p s") auto
  with memory_note_naturals [OF Cons.prems, of t p] have s1: "set (userSequence s1) \<subseteq> set naturals"
    by simp
  then have s1': "set (userSequence (s1\<lparr>console := console s1 @ [x]\<rparr>)) \<subseteq> set naturals" for x
    by simp
  show ?case
  proof (cases "delivering s")
    case False
    with Cons.prems show ?thesis
      by (simp add: run_not_delivering)
  next
    case True
    show ?thesis
    proof (cases err)
      case None
      with True e step Cons.IH [OF s1] show ?thesis
        by simp
    next
      case (Some x)
      with True e step Cons.IH [OF s1'] show ?thesis
        by simp
    qed
  qed
qed

text \<open>
  C9. In the memory exercise a detected pitch class that is not one of the seven naturals
  leaves every variable as it was: it is not appended to the recorded list and does not
  count. From the start of a recording, whether or not the microphone was obtained, the
  recorded list holds natural pitch classes only.
\<close>

theorem memory_discards_accidentals:
  "(freqToPitchClass freq = Some p \<and> p \<notin> set naturals \<longrightarrow> memory_onFrequency now freq s = (None, s))
   \<and> set (userSequence (run memory_onFrequency evs (memory_startRecording t0 mic s))) \<subseteq> set naturals"
proof
  show "freqToPitchClass freq = Some p \<and> p \<notin> set naturals \<longrightarrow> memory_onFrequency now freq s = (None, s)"
    by (simp add: memory_onFrequency_def memory_note_not_natural)
  have "set (userSequence (memory_startRecording t0 mic s)) \<subseteq> set naturals"
    by (simp add: memory_startRecording_def begin_recording_def)
  then have "set (userSequence (run memory_note (resolve evs) (memory_startRecording t0 mic s))) \<subseteq> set naturals"
    by (rule memory_run_naturals)
  then show "set (userSequence (run memory_onFrequency evs (memory_startRecording t0 mic s))) \<subseteq> set naturals"
    by (simp only: memory_run_resolve)
qed

theorem memory_discards_accidentals_witness:
  "freqToPitchClass 277 = Some ''C#'' \<and> ''C#'' \<notin> set naturals
   \<and> memory_onFrequency 1000 277
        (memory_startRecording 500 None
          \<lparr>detector = None, recordStartTime = None, status = Blank, pianoStars = 0,
           console = [], expectedSequence = [''C'', ''E'', ''G''], userSequence = []\<rparr>)
      = (None, memory_startRecording 500 None
          \<lparr>detector = None, recordStartTime = None, status = Blank, pianoStars = 0,
           console = [], expectedSequence = [''C'', ''E'', ''G''], userSequence = []\<rparr>)
   \<and> userSequence (run memory_onFrequency [(1000, 262), (2000, 277), (3000, 330)]
        (memory_startRecording 500 None
          \<lparr>detector = None, recordStartTime = None, status = Blank, pianoStars = 0,
           console = [], expectedSequence = [''C'', ''E'', ''G''], userSequence = []\<rparr>))
      = [''C'', ''E'']"
proof -
  let ?s = "\<lparr>detector = None, recordStartTime = None, status = Blank, pianoStars = 0,
           console = [], expectedSequence = [''C'', ''E'', ''G''], userSequence = []\<rparr>"
  have h: "freqToPitchClass 277 = Some ''C#''" "''C#'' \<notin> set naturals"
    by (simp_all add: naturals_def freqToPitchClass_Hz)
  from memory_discards_accidentals [of 277 "''C#''" 1000 "memory_startRecording 500 None ?s"] h
  have a: "memory_onFrequency 1000 277 (memory_startRecording 500 None ?s)
      = (None, memory_startRecording 500 None ?s)"
    by simp
  have "resolve [(1000, 262), (2000, 277), (3000, 330)] = [(1000, ''C''), (2000, ''C#''), (3000, ''E'')]"
    by (simp add: freqToPitchClass_Hz)
  then have b: "userSequence (run memory_onFrequency [(1000, 262), (2000, 277), (3000, 330)]
        (memory_startRecording 500 None ?s)) = [''C'', ''E'']"
    unfolding memory_run_resolve
    by (simp add: memory_startRecording_def begin_recording_def start_def NoteDetector_new_def
        delivering_def memory_note_def naturals_def Let_def)
  from h a b show ?thesis
    by simp
qed

subsection \<open>Note reading\<close>

lemma parseNoteName_empty: "parseNoteName [] = Inl (InvalidNoteName [])"
  by (simp add: parseNoteName_def trim_def)

lemma begin_recording_reading:
  assumes "currentNote s = Some name" and "name \<noteq> []"
  shows "delivering (reading_startRecording t0 None s)"
    and "currentNote (reading_startRecording t0 None s) = Some name"
    and "recordStartTime (reading_startRecording t0 None s) = Some t0"
  using assms
  by (simp_all add: reading_startRecording_def delivering_def begin_recording_def start_def
      NoteDetector_new_def)

lemma reading_note_first:
  assumes "delivering s" and "currentNote s = Some name" and "parseNoteName name = Inr parsed"
  shows "reading_note now p s =
    (None, (if strip_sharp p = strip_sharp (pc parsed)
            then succeed (stars_for 3 6 (recordStartTime s) now) s
            else s\<lparr>status := ResultFailure (NoteWas (strip_sharp p))\<rparr>)\<lparr>detector := None\<rparr>)"
proof -
  from assms(1) obtain d where "detector s = Some d"
    by (auto simp: delivering_def split: option.splits)
  with assms(2,3) show ?thesis
    by (simp add: reading_note_def Let_def stop_detector_def succeed_def)
qed

text \<open>
  C6. With a current note that parses, after recording has started the first event that
  resolves to a pitch class decides: the exercise succeeds when the detected pitch class and the target are equal
  after a sharp sign is removed from each, and otherwise fails with a message naming the
  detected natural; the detector is stopped, and whatever events follow, the page is the
  same as after the first event alone.
\<close>

theorem single_note_single_shot:
  "currentNote s = Some name \<and> parseNoteName name = Inr parsed \<and> freqToPitchClass f = Some p \<longrightarrow>
     run reading_onFrequency ((t, f) # later) (reading_startRecording t0 None s)
       = run reading_onFrequency [(t, f)] (reading_startRecording t0 None s)
     \<and> detector (run reading_onFrequency [(t, f)] (reading_startRecording t0 None s)) = None
     \<and> (strip_sharp p = strip_sharp (pc parsed) \<longrightarrow>
          status (run reading_onFrequency [(t, f)] (reading_startRecording t0 None s))
            = ResultSuccess (stars_for 3 6 (Some t0) t))
     \<and> (strip_sharp p \<noteq> strip_sharp (pc parsed) \<longrightarrow>
          status (run reading_onFrequency [(t, f)] (reading_startRecording t0 None s))
            = ResultFailure (NoteWas (strip_sharp p)))"
proof
  let ?s0 = "reading_startRecording t0 None s"
  assume a: "currentNote s = Some name \<and> parseNoteName name = Inr parsed \<and> freqToPitchClass f = Some p"
  then have "name \<noteq> []"
    by (auto simp: parseNoteName_empty)
  with a have d: "delivering ?s0" and c: "currentNote ?s0 = Some name"
    and r: "recordStartTime ?s0 = Some t0"
    by (simp_all add: begin_recording_reading)
  let ?s1 = "(if strip_sharp p = strip_sharp (pc parsed)
            then succeed (stars_for 3 6 (recordStartTime ?s0) t) ?s0
            else ?s0\<lparr>status := ResultFailure (NoteWas (strip_sharp p))\<rparr>)\<lparr>detector := None\<rparr>"
  from a have "reading_note t p ?s0 = (None, ?s1)"
    by (intro reading_note_first [OF d c]) simp
  with a have step: "reading_onFrequency t f ?s0 = (None, ?s1)"
    by (simp add: reading_onFrequency_def)
  have nd: "\<not> delivering ?s1"
    by (rule not_delivering_stopped)
  have one: "run reading_onFrequency [(t, f)] ?s0 = ?s1"
    using d step by simp
  have many: "run reading_onFrequency ((t, f) # later) ?s0 = ?s1"
    using d step run_not_delivering [OF nd, of reading_onFrequency later] by simp
  show "run reading_onFrequency ((t, f) # later) ?s0 = run reading_onFrequency [(t, f)] ?s0
     \<and> detector (run reading_onFrequency [(t, f)] ?s0) = None
     \<and> (strip_sharp p = strip_sharp (pc parsed) \<longrightarrow>
          status (run reading_onFrequency [(t, f)] ?s0) = ResultSuccess (stars_for 3 6 (Some t0) t))
     \<and> (strip_sharp p \<noteq> strip_sharp (pc parsed) \<longrightarrow>
          status (run reading_onFrequency [(t, f)] ?s0) = ResultFailure (NoteWas (strip_sharp p)))"
    unfolding one many by (simp add: r succeed_def)
qed

theorem single_note_single_shot_witness:
  "currentNote \<lparr>detector = None, recordStartTime = None, status = Blank, pianoStars = 0,
       console = [], currentNote = Some ''E4''\<rparr> = Some ''E4''
   \<and> parseNoteName ''E4'' = Inr \<lparr>pc = ''E'', octave = 4\<rparr>
   \<and> freqToPitchClass 370 = Some ''F#''
   \<and> strip_sharp ''F#'' \<noteq> strip_sharp ''E''
   \<and> status (run reading_onFrequency [(1000, 370), (2000, 330), (3000, 330)]
        (reading_startRecording 500 None
          \<lparr>detector = None, recordStartTime = None, status = Blank, pianoStars = 0,
           console = [], currentNote = Some ''E4''\<rparr>))
      = ResultFailure (NoteWas ''F'')"
proof -
  let ?s = "\<lparr>detector = None, recordStartTime = None, status = Blank, pianoStars = 0,
       console = [], currentNote = Some ''E4''\<rparr>"
  have h: "currentNote ?s = Some ''E4''"
    by simp
  have q: "parseNoteName ''E4'' = Inr \<lparr>pc = ''E'', octave = 4\<rparr>"
    by code_simp
  have f: "freqToPitchClass 370 = Some ''F#''"
    by (rule freqToPitchClass_Hz)
  have n: "strip_sharp ''F#'' = ''F''" "strip_sharp ''E'' = ''E''"
    by (simp_all add: strip_sharp_def)
  from single_note_single_shot [of ?s "''E4''" "\<lparr>pc = ''E'', octave = 4\<rparr>" 370 "''F#''" 1000
      "[(2000, 330), (3000, 330)]" 500] h q f n
  have "status (run reading_onFrequency [(1000, 370), (2000, 330), (3000, 330)]
        (reading_startRecording 500 None ?s)) = ResultFailure (NoteWas ''F'')"
    by (simp del: run.simps)
  with h q f n show ?thesis
    by (simp del: run.simps)
qed

end
